theory Spec2Isabelle
  imports Complex_Main "HOL-Library.AList" "HOL-Library.Log_Nat"
begin

section \<open>The resource game: villagers, stockpiles and the command interpreter\<close>

text \<open>
  A shallow embedding of \<^verbatim>\<open>src/resource_game.py\<close>. The two dictionaries the program
  shares between its threads (\<^verbatim>\<open>resources\<close>, \<^verbatim>\<open>villagers\<close>), the two JSON files and
  the log are the fields of one state record; every function that mutates them in the
  source takes the state and returns the new one. Exceptions are values of \<open>py_error\<close>.
\<close>

subsection \<open>Python strings: \<^verbatim>\<open>str.lower\<close>, \<^verbatim>\<open>str.split\<close>, \<^verbatim>\<open>str.strip\<close>, \<^verbatim>\<open>int\<close>, \<^verbatim>\<open>str\<close>\<close>

text \<open>
  Strings are ASCII: a \<open>char\<close> is a byte, and the functions below treat every byte
  above 127 as an ordinary character (neither space, digit nor upper-case letter).
\<close>

definition lower_char :: "char \<Rightarrow> char" where
  "lower_char c = (let n = (of_char c :: nat) in if 65 \<le> n \<and> n \<le> 90 then char_of (n + 32) else c)"

definition lower :: "string \<Rightarrow> string" where
  "lower s = map lower_char s"

text \<open>The ASCII characters for which \<^verbatim>\<open>str.isspace\<close> holds: TAB, LF, VT, FF, CR, FS, GS, RS, US, SPACE.\<close>

definition is_space :: "char \<Rightarrow> bool" where
  "is_space c = (let n = (of_char c :: nat) in (9 \<le> n \<and> n \<le> 13) \<or> (28 \<le> n \<and> n \<le> 32))"

text \<open>\<^verbatim>\<open>command.split()\<close>: the maximal runs of non-space characters, in order.\<close>

fun split_from :: "string \<Rightarrow> string \<Rightarrow> string list" where
  "split_from tok [] = (if tok = [] then [] else [tok])"
| "split_from tok (c # cs) =
     (if is_space c then (if tok = [] then split_from [] cs else tok # split_from [] cs)
      else split_from (tok @ [c]) cs)"

definition py_split :: "string \<Rightarrow> string list" where
  "py_split s = split_from [] s"

definition strip :: "string \<Rightarrow> string" where
  "strip s = rev (dropWhile is_space (rev (dropWhile is_space s)))"

definition is_digit :: "char \<Rightarrow> bool" where
  "is_digit c = (let n = (of_char c :: nat) in 48 \<le> n \<and> n \<le> 57)"

definition digit_val :: "char \<Rightarrow> int" where
  "digit_val c = int (of_char c) - 48"

text \<open>
  \<^verbatim>\<open>int(s)\<close> for a token without spaces: an optional sign, then decimal digits, single
  underscores allowed between digits. \<open>None\<close> is \<^verbatim>\<open>ValueError\<close>. (CPython's limit on
  the number of digits and the non-ASCII decimal digits are outside the model.)
\<close>

fun py_digits :: "int \<Rightarrow> string \<Rightarrow> int option" where
  "py_digits acc [] = Some acc"
| "py_digits acc (c # cs) =
     (if is_digit c then py_digits (acc * 10 + digit_val c) cs
      else if c = CHR ''_'' then
        (case cs of
           [] \<Rightarrow> None
         | d # ds \<Rightarrow> if is_digit d then py_digits (acc * 10 + digit_val d) ds else None)
      else None)"

definition py_unsigned :: "string \<Rightarrow> int option" where
  "py_unsigned s =
     (case s of [] \<Rightarrow> None | c # cs \<Rightarrow> if is_digit c then py_digits (digit_val c) cs else None)"

definition py_int :: "string \<Rightarrow> int option" where
  "py_int s =
     (case s of
        [] \<Rightarrow> None
      | c # cs \<Rightarrow>
          if c = CHR ''-'' then map_option uminus (py_unsigned cs)
          else if c = CHR ''+'' then py_unsigned cs
          else py_unsigned s)"

text \<open>\<^verbatim>\<open>str(n)\<close> of an integer, as an f-string prints it.\<close>

fun str_nat :: "nat \<Rightarrow> string" where
  "str_nat n = (if n < 10 then [char_of (48 + n)] else str_nat (n div 10) @ [char_of (48 + n mod 10)])"

definition str_int :: "int \<Rightarrow> string" where
  "str_int i = (if i < 0 then CHR ''-'' # str_nat (nat (- i)) else str_nat (nat i))"

text \<open>\<^verbatim>\<open>sep.join(xs)\<close>.\<close>

fun join :: "string \<Rightarrow> string list \<Rightarrow> string" where
  "join sep [] = []"
| "join sep [x] = x"
| "join sep (x # y # ys) = x @ sep @ join sep (y # ys)"

subsection \<open>Python floats\<close>

text \<open>
  A Python \<^verbatim>\<open>float\<close> is an IEEE 754 binary64 number: a rational of the form
  \<open>m * 2^k\<close> with \<open>\<bar>m\<bar> < 2^53\<close> and \<open>- 1074 \<le> k \<le> 971\<close>, or an infinity, or NaN.
  Every arithmetic operation returns the exact result rounded to the nearest such number,
  ties to the even mantissa. (The sign of zero is not represented: \<^verbatim>\<open>-0.0\<close> and
  \<^verbatim>\<open>0.0\<close> are equal in every comparison the program makes.)
\<close>

datatype pyfloat = Finite rat | PosInf | NegInf | NaN

definition pow2 :: "int \<Rightarrow> rat" where
  "pow2 k = (if 0 \<le> k then 2 ^ nat k else 1 / 2 ^ nat (- k))"

text \<open>The binary exponent of a positive rational: the \<open>e\<close> with \<open>2^e \<le> q < 2^(e+1)\<close>.\<close>

definition floor_log2 :: "rat \<Rightarrow> int" where
  "floor_log2 q = (if 1 \<le> q then bitlen \<lfloor>q\<rfloor> - 1 else - bitlen (\<lceil>1 / q\<rceil> - 1))"

definition round_half_even :: "rat \<Rightarrow> int" where
  "round_half_even y =
     (let f = \<lfloor>y\<rfloor>; d = y - of_int f
      in if d < 1 / 2 then f else if 1 / 2 < d then f + 1 else if even f then f else f + 1)"

text \<open>
  Rounding to binary64: the spacing of the numbers around \<open>q\<close> is \<open>2^(e - 52)\<close>, where
  \<open>e\<close> is the exponent of \<open>q\<close>, at least \<open>- 1022\<close> (below that the numbers are
  subnormal and evenly spaced); a result of magnitude \<open>2^1024\<close> or more is an infinity.
\<close>

definition double_exponent :: "rat \<Rightarrow> int" where
  "double_exponent q = max (floor_log2 \<bar>q\<bar>) (- 1022)"

definition round_to_grid :: "rat \<Rightarrow> rat" where
  "round_to_grid q =
     (let ulp = pow2 (double_exponent q - 52) in of_int (round_half_even (q / ulp)) * ulp)"

text \<open>Overflow: a rounded value of magnitude \<open>2^1024\<close> or more is an infinity.\<close>

definition classify :: "rat \<Rightarrow> pyfloat" where
  "classify r =
     (if pow2 1024 \<le> r then PosInf else if r \<le> - pow2 1024 then NegInf else Finite r)"

definition round_double :: "rat \<Rightarrow> pyfloat" where
  "round_double q = (if q = 0 then Finite 0 else classify (round_to_grid q))"

definition is_double :: "pyfloat \<Rightarrow> bool" where
  "is_double x = (case x of Finite q \<Rightarrow> round_double q = Finite q | _ \<Rightarrow> True)"

fun fadd :: "pyfloat \<Rightarrow> pyfloat \<Rightarrow> pyfloat" where
  "fadd (Finite a) (Finite b) = round_double (a + b)"
| "fadd NaN _ = NaN"
| "fadd _ NaN = NaN"
| "fadd PosInf NegInf = NaN"
| "fadd NegInf PosInf = NaN"
| "fadd PosInf _ = PosInf"
| "fadd _ PosInf = PosInf"
| "fadd NegInf _ = NegInf"
| "fadd _ NegInf = NegInf"

fun fneg :: "pyfloat \<Rightarrow> pyfloat" where
  "fneg (Finite a) = Finite (- a)"
| "fneg PosInf = NegInf"
| "fneg NegInf = PosInf"
| "fneg NaN = NaN"

fun fmul :: "pyfloat \<Rightarrow> pyfloat \<Rightarrow> pyfloat" where
  "fmul (Finite a) (Finite b) = round_double (a * b)"
| "fmul NaN _ = NaN"
| "fmul _ NaN = NaN"
| "fmul (Finite a) y = (if a = 0 then NaN else if 0 < a then y else fneg y)"
| "fmul x (Finite b) = (if b = 0 then NaN else if 0 < b then x else fneg x)"
| "fmul PosInf y = y"
| "fmul NegInf y = fneg y"

text \<open>The comparisons \<^verbatim>\<open><\<close> and \<^verbatim>\<open><=\<close>; every comparison with NaN is false.\<close>

fun fless :: "pyfloat \<Rightarrow> pyfloat \<Rightarrow> bool" where
  "fless NaN _ = False"
| "fless _ NaN = False"
| "fless (Finite a) (Finite b) = (a < b)"
| "fless _ NegInf = False"
| "fless PosInf _ = False"
| "fless NegInf _ = True"
| "fless _ PosInf = True"

fun fle :: "pyfloat \<Rightarrow> pyfloat \<Rightarrow> bool" where
  "fle NaN _ = False"
| "fle _ NaN = False"
| "fle (Finite a) (Finite b) = (a \<le> b)"
| "fle NegInf _ = True"
| "fle _ PosInf = True"
| "fle _ NegInf = False"
| "fle PosInf _ = False"

subsection \<open>Errors, files, the log and the state\<close>

datatype py_error =
    IndexError
  | KeyError string
  | OverflowError
  | OSError
  | UnicodeDecodeError
  | RecursionError
  | ValueError
  | SystemExit

text \<open>
  \<^verbatim>\<open>str(e)\<close> for the exceptions whose text the input loop prints. (The text of the
  exceptions of a load depends on the file and is never printed: they escape the program.)
\<close>

fun str_error :: "py_error \<Rightarrow> string" where
  "str_error IndexError = ''list index out of range''"
| "str_error (KeyError k) = [CHR 0x27] @ k @ [CHR 0x27]"
| "str_error OverflowError = ''int too large to convert to float''"
| "str_error OSError = []"
| "str_error UnicodeDecodeError = []"
| "str_error RecursionError = []"
| "str_error ValueError = []"
| "str_error SystemExit = ''0''"

text \<open>
  A JSON file, by what \<^verbatim>\<open>open(..., "r")\<close> followed by \<^verbatim>\<open>json.load\<close> does with it:
  \<^item> \<open>Absent\<close>: there is no file; \<^verbatim>\<open>open\<close> raises \<^verbatim>\<open>FileNotFoundError\<close> (with its text);
  \<^item> \<open>Unopenable\<close>: \<^verbatim>\<open>open\<close> raises another \<^verbatim>\<open>OSError\<close> (no permission, a directory);
  \<^item> \<open>Undecodable\<close>: the bytes are not text in the encoding; reading raises
    \<^verbatim>\<open>UnicodeDecodeError\<close>;
  \<^item> \<open>Malformed\<close>: the text is not JSON; the parser raises \<^verbatim>\<open>json.JSONDecodeError\<close>
    (with its text);
  \<^item> \<open>Overnested\<close>: the text nests deeper than the recursion limit; the parser raises
    \<^verbatim>\<open>RecursionError\<close>;
  \<^item> \<open>Overlong\<close>: an integer literal has more digits than the interpreter converts; the
    parser raises \<^verbatim>\<open>ValueError\<close>;
  \<^item> \<open>Contents\<close>: the file parses, to the record given.
\<close>

datatype 'a json_file =
    Absent string
  | Unopenable
  | Undecodable
  | Malformed string
  | Overnested
  | Overlong
  | Contents 'a

text \<open>The files whose contents fail to parse.\<close>

fun fails_to_parse :: "'a json_file \<Rightarrow> bool" where
  "fails_to_parse Undecodable = True"
| "fails_to_parse (Malformed e) = True"
| "fails_to_parse Overnested = True"
| "fails_to_parse Overlong = True"
| "fails_to_parse (Absent e) = False"
| "fails_to_parse Unopenable = False"
| "fails_to_parse (Contents r) = False"

type_synonym ledger = "(string \<times> pyfloat) list"
type_synonym allocation = "(string \<times> int) list"

text \<open>
  One line of the log. The lines that print a float or a JSON dump keep their arguments
  instead of the text; the timestamp that \<^verbatim>\<open>log_message\<close> prepends is left out.
\<close>

datatype log_entry =
    Line string
  | Updated string pyfloat int
  | CurrentResources ledger
  | VillagerAllocation allocation

text \<open>
  A dictionary is an association list in insertion order; \<open>map_of\<close> is the lookup and
  \<open>AList.update\<close> the assignment \<^verbatim>\<open>d[k] = v\<close>.
\<close>

record game =
  resources :: ledger
  villagers :: allocation
  resources_file :: "ledger json_file"
  villagers_file :: "allocation json_file"
  log :: "log_entry list"

datatype outcome = Returned game | Raised py_error game

fun state_of :: "outcome \<Rightarrow> game" where
  "state_of (Returned g) = g"
| "state_of (Raised e g) = g"

subsection \<open>Constants\<close>

definition TOTAL_VILLAGERS :: int where
  "TOTAL_VILLAGERS = 100"

definition RESOURCE_TYPES :: "string list" where
  "RESOURCE_TYPES = [''gold'', ''stone'', ''wood'', ''food'']"

text \<open>A float literal denotes the double nearest to its decimal value.\<close>

definition RESOURCE_PERCENTAGES :: ledger where
  "RESOURCE_PERCENTAGES =
     [(''gold'', round_double (4 / 100000)),
      (''stone'', round_double (90 / 100)),
      (''wood'', round_double (1 / 1000)),
      (''food'', round_double (1 / 10000))]"

text \<open>
  The zero-valued records. (A stockpile that JSON gives as an integer is the float of the
  same value: the \<open>0\<close> of the default ledger is the float \<open>0\<close>, the two are equal and
  add alike. An integer that no double equals has no value in the model.)
\<close>

definition default_resources :: ledger where
  "default_resources =
     [(''gold'', Finite 0), (''stone'', Finite 0), (''wood'', Finite 0), (''food'', Finite 0)]"

definition default_villagers :: allocation where
  "default_villagers = [(''gold'', 0), (''stone'', 0), (''wood'', 0), (''food'', 0)]"

subsection \<open>Logging and the persistence store\<close>

definition log_message :: "log_entry \<Rightarrow> game \<Rightarrow> game" where
  "log_message m g = g\<lparr>log := log g @ [m]\<rparr>"

text \<open>
  \<^verbatim>\<open>load_resources\<close> and \<^verbatim>\<open>load_villagers\<close>: the \<^verbatim>\<open>except\<close> clause catches
  \<^verbatim>\<open>FileNotFoundError\<close> and \<^verbatim>\<open>json.JSONDecodeError\<close> only; every other exception
  of \<^verbatim>\<open>open\<close> and \<^verbatim>\<open>json.load\<close> leaves the function. The result is the record
  returned (or the exception that escapes) and the state with the lines logged.
\<close>

definition load_resources :: "game \<Rightarrow> (py_error + ledger) \<times> game" where
  "load_resources g =
     (case resources_file g of
        Contents r \<Rightarrow> (Inr r, g)
      | Absent e \<Rightarrow>
          (Inr default_resources,
           log_message (Line (''Error loading resources: '' @ e @ ''.  Returning default resources.'')) g)
      | Malformed e \<Rightarrow>
          (Inr default_resources,
           log_message (Line (''Error loading resources: '' @ e @ ''.  Returning default resources.'')) g)
      | Unopenable \<Rightarrow> (Inl OSError, g)
      | Undecodable \<Rightarrow> (Inl UnicodeDecodeError, g)
      | Overnested \<Rightarrow> (Inl RecursionError, g)
      | Overlong \<Rightarrow> (Inl ValueError, g))"

definition load_villagers :: "game \<Rightarrow> (py_error + allocation) \<times> game" where
  "load_villagers g =
     (case villagers_file g of
        Contents v \<Rightarrow> (Inr v, g)
      | Absent e \<Rightarrow>
          (Inr default_villagers,
           log_message (Line (''Error loading villagers: '' @ e @ ''.  Returning default villagers.'')) g)
      | Malformed e \<Rightarrow>
          (Inr default_villagers,
           log_message (Line (''Error loading villagers: '' @ e @ ''.  Returning default villagers.'')) g)
      | Unopenable \<Rightarrow> (Inl OSError, g)
      | Undecodable \<Rightarrow> (Inl UnicodeDecodeError, g)
      | Overnested \<Rightarrow> (Inl RecursionError, g)
      | Overlong \<Rightarrow> (Inl ValueError, g))"

text \<open>
  \<^verbatim>\<open>save_resources\<close> and \<^verbatim>\<open>save_villagers\<close> replace the file by the record. (A
  write that fails is caught and logged there and changes neither dictionary; the model
  takes the write to succeed.)
\<close>

definition save_resources :: "game \<Rightarrow> game" where
  "save_resources g = g\<lparr>resources_file := Contents (resources g)\<rparr>"

definition save_villagers :: "game \<Rightarrow> game" where
  "save_villagers g = g\<lparr>villagers_file := Contents (villagers g)\<rparr>"

subsection \<open>The accumulator: \<^verbatim>\<open>update_resources\<close> and one pass of \<^verbatim>\<open>game_loop\<close>\<close>

text \<open>
  \<^verbatim>\<open>num_villagers * rate\<close> with an \<^verbatim>\<open>int\<close> on the left converts the integer to
  a float first; an integer too large for a double raises \<^verbatim>\<open>OverflowError\<close>.
\<close>

definition float_of_int :: "int \<Rightarrow> py_error + pyfloat" where
  "float_of_int i =
     (case round_double (of_int i) of Finite q \<Rightarrow> Inr (Finite q) | _ \<Rightarrow> Inl OverflowError)"

text \<open>
  The gain of one resource type in one pass: the product, or zero when the product is
  negative.
\<close>

definition resource_gain :: "int \<Rightarrow> pyfloat \<Rightarrow> py_error + pyfloat" where
  "resource_gain num_villagers rate =
     (case float_of_int num_villagers of
        Inl e \<Rightarrow> Inl e
      | Inr n \<Rightarrow>
          (let product = fmul n rate
           in Inr (if fless product (Finite 0) then Finite 0 else product)))"

text \<open>
  The body of the \<^verbatim>\<open>for\<close> loop, for the resource types still to visit. A missing key
  raises \<^verbatim>\<open>KeyError\<close>; what the loop has stored before the exception stays stored.
  (\<^verbatim>\<open>rotate_log_file\<close> touches only the log file on disk and is left out.)
\<close>

fun update_loop :: "string list \<Rightarrow> game \<Rightarrow> outcome" where
  "update_loop [] g = Returned g"
| "update_loop (resource_type # rest) g =
     (case map_of (villagers g) resource_type of
        None \<Rightarrow> Raised (KeyError resource_type) g
      | Some num_villagers \<Rightarrow>
          (case map_of RESOURCE_PERCENTAGES resource_type of
             None \<Rightarrow> Raised (KeyError resource_type) g
           | Some rate \<Rightarrow>
               (case resource_gain num_villagers rate of
                  Inl e \<Rightarrow> Raised e g
                | Inr gain \<Rightarrow>
                    (case map_of (resources g) resource_type of
                       None \<Rightarrow> Raised (KeyError resource_type) g
                     | Some amount \<Rightarrow>
                         update_loop rest
                           (log_message (Updated resource_type gain num_villagers)
                              (g\<lparr>resources :=
                                   AList.update resource_type (fadd amount gain)
                                     (resources g)\<rparr>))))))"

definition update_resources :: "game \<Rightarrow> outcome" where
  "update_resources g = update_loop RESOURCE_TYPES g"

text \<open>
  One pass of the \<^verbatim>\<open>while True\<close> loop of \<^verbatim>\<open>game_loop\<close>, without the sleep: an
  exception of \<^verbatim>\<open>update_resources\<close> ends the thread before the save.
\<close>

definition tick :: "game \<Rightarrow> outcome" where
  "tick g =
     (case update_resources g of
        Returned g' \<Rightarrow> Returned (save_resources g')
      | Raised e g' \<Rightarrow> Raised e g')"

text \<open>\<open>N\<close> passes; the thread is gone after the first exception.\<close>

fun ticks :: "nat \<Rightarrow> game \<Rightarrow> outcome" where
  "ticks 0 g = Returned g"
| "ticks (Suc n) g =
     (case tick g of Returned g' \<Rightarrow> ticks n g' | Raised e g' \<Rightarrow> Raised e g')"

subsection \<open>The command interpreter: \<^verbatim>\<open>handle_command\<close>\<close>

definition usage_message :: string where
  "usage_message = ''Invalid command format. Use: get <resource> with <number> villagers/villager''"

definition invalid_number_message :: string where
  "invalid_number_message = ''Invalid number of villagers.  Must be an integer.''"

definition invalid_resource_message :: "string \<Rightarrow> string" where
  "invalid_resource_message resource_type =
     ''Invalid resource type: '' @ resource_type @ ''.  Must be one of ''
       @ join '', '' RESOURCE_TYPES @ ''.''"

definition too_many_message :: "int \<Rightarrow> string" where
  "too_many_message current_total_villagers =
     ''Too many villagers. You have '' @ str_int current_total_villagers
       @ '' villagers assigned. You can assign a maximum of '' @ str_int TOTAL_VILLAGERS @ ''.''"

definition set_message :: "int \<Rightarrow> string \<Rightarrow> string" where
  "set_message num_villagers resource_type =
     ''Set '' @ str_int num_villagers @ '' villagers to '' @ resource_type @ ''.''"

definition unknown_command_message :: "string \<Rightarrow> string" where
  "unknown_command_message action =
     ''Unknown command: '' @ action @ ''. Type 'help' for available commands.''"

definition help_lines :: "string list" where
  "help_lines =
     [''Available commands:'',
      ''  get <resource> with <number> villagers/villager - Assign villagers to a resource (e.g., get gold with 10 villagers)'',
      ''  status - Display current resource levels and villager allocation'',
      ''  help - Display this help message'',
      ''  exit - Exit the game'']"

text \<open>
  The branches follow the source in order. \<^verbatim>\<open>parts[3]\<close> is evaluated inside a
  \<^verbatim>\<open>try\<close> that catches \<^verbatim>\<open>ValueError\<close> only, so with three tokens its
  \<^verbatim>\<open>IndexError\<close> leaves the function. \<^verbatim>\<open>sys.exit(0)\<close> raises
  \<^verbatim>\<open>SystemExit\<close>.
\<close>

definition handle_command :: "string \<Rightarrow> game \<Rightarrow> outcome" where
  "handle_command command g =
     (let parts = py_split command in
      if parts = [] then Returned g
      else
        let action = lower (parts ! 0) in
        if action = ''get'' then
          (if length parts < 3 then Returned (log_message (Line usage_message) g)
           else
             let resource_type = lower (parts ! 1) in
             if length parts \<le> 3 then Raised IndexError g
             else
               (case py_int (parts ! 3) of
                  None \<Rightarrow> Returned (log_message (Line invalid_number_message) g)
                | Some num_villagers \<Rightarrow>
                    if resource_type \<notin> set RESOURCE_TYPES
                    then Returned (log_message (Line (invalid_resource_message resource_type)) g)
                    else
                      let current_total_villagers = sum_list (map snd (villagers g)) in
                      (case map_of (villagers g) resource_type of
                         None \<Rightarrow> Raised (KeyError resource_type) g
                       | Some assigned \<Rightarrow>
                           if current_total_villagers - assigned + num_villagers > TOTAL_VILLAGERS
                           then Returned (log_message (Line (too_many_message current_total_villagers)) g)
                           else
                             Returned
                               (log_message (Line (set_message num_villagers resource_type))
                                  (save_villagers
                                     (g\<lparr>villagers :=
                                          AList.update resource_type num_villagers (villagers g)\<rparr>))))))
        else if action = ''status'' then
          Returned
            (log_message (Line (''Total Gathering Villagers: '' @ str_int (sum_list (map snd (villagers g)))))
               (log_message (VillagerAllocation (villagers g))
                  (log_message (CurrentResources (resources g)) g)))
        else if action = ''help'' then
          Returned (fold (\<lambda>l. log_message (Line l)) help_lines g)
        else if action = ''exit'' then
          Raised SystemExit (log_message (Line ''Exiting game.'') g)
        else Returned (log_message (Line (unknown_command_message action)) g))"

subsection \<open>The input loop of \<^verbatim>\<open>main\<close>\<close>

text \<open>
  The lines typed so far, in order. An exception of class \<^verbatim>\<open>Exception\<close> is caught
  around the whole loop: two lines are logged and the loop is over. \<^verbatim>\<open>SystemExit\<close>
  is not an \<^verbatim>\<open>Exception\<close> and ends the process at once. The flag says whether the
  loop is still reading.
\<close>

fun main_loop :: "string list \<Rightarrow> game \<Rightarrow> bool \<times> game" where
  "main_loop [] g = (True, g)"
| "main_loop (line # rest) g =
     (case handle_command (strip line) g of
        Returned g' \<Rightarrow> main_loop rest g'
      | Raised e g' \<Rightarrow>
          if e = SystemExit then (False, g')
          else
            (False,
             log_message (Line ''Game exited due to error.'')
               (log_message (Line (''An unexpected error occurred: '' @ str_error e)) g')))"

subsection \<open>Reachable states\<close>

text \<open>
  The state after \<^verbatim>\<open>ensure_data_files\<close> and the two loads on a first run: both
  records zero, both files holding them.
\<close>

definition initial_game :: game where
  "initial_game =
     \<lparr>resources = default_resources, villagers = default_villagers,
      resources_file = Contents default_resources,
      villagers_file = Contents default_villagers, log = []\<rparr>"

text \<open>
  The two threads interleave; each step is one whole command or one whole pass of the
  accumulator. (Only \<^verbatim>\<open>handle_command\<close> writes \<^verbatim>\<open>villagers\<close> and only
  \<^verbatim>\<open>update_resources\<close> writes \<^verbatim>\<open>resources\<close>.) The state in which an exception
  leaves a step is reachable too.
\<close>

inductive reachable :: "game \<Rightarrow> bool" where
  start: "reachable initial_game"
| command: "reachable g \<Longrightarrow> reachable (state_of (handle_command c g))"
| accumulate: "reachable g \<Longrightarrow> reachable (state_of (tick g))"


section \<open>Properties\<close>

subsection \<open>Frame lemmas\<close>

lemma sum_list_update:
  "map_of xs k = Some old \<Longrightarrow>
   sum_list (map snd (AList.update k v xs)) = sum_list (map snd xs) - old + (v::int)"
  by (induction xs) (auto split: if_splits)

lemma update_nonneg:
  "\<forall>v \<in> snd ` set xs. (0::int) \<le> v \<Longrightarrow> 0 \<le> n \<Longrightarrow>
   \<forall>v \<in> snd ` set (AList.update k n xs). 0 \<le> v"
  by (induction xs) (auto split: if_splits)

lemma log_message_fields [simp]:
  "resources (log_message m g) = resources g"
  "villagers (log_message m g) = villagers g"
  "resources_file (log_message m g) = resources_file g"
  "villagers_file (log_message m g) = villagers_file g"
  "log (log_message m g) = log g @ [m]"
  by (simp_all add: log_message_def)

lemma fold_log_message_fields [simp]:
  "resources (fold (\<lambda>l. log_message (Line l)) ls g) = resources g"
  "villagers (fold (\<lambda>l. log_message (Line l)) ls g) = villagers g"
  "resources_file (fold (\<lambda>l. log_message (Line l)) ls g) = resources_file g"
  "villagers_file (fold (\<lambda>l. log_message (Line l)) ls g) = villagers_file g"
  by (induction ls arbitrary: g) simp_all

lemma save_fields [simp]:
  "resources (save_villagers g) = resources g"
  "villagers (save_villagers g) = villagers g"
  "resources_file (save_villagers g) = resources_file g"
  "log (save_villagers g) = log g"
  "resources (save_resources g) = resources g"
  "villagers (save_resources g) = villagers g"
  "villagers_file (save_resources g) = villagers_file g"
  "log (save_resources g) = log g"
  by (simp_all add: save_villagers_def save_resources_def)


lemma get_too_few_tokens:
  assumes "py_split c = [p0] \<or> py_split c = [p0, p1]" and "lower p0 = ''get''"
  shows "handle_command c g = Returned (log_message (Line usage_message) g)"
  using assms by (auto simp add: handle_command_def Let_def)

lemma get_three_tokens:
  assumes "py_split c = [p0, p1, p2]" and "lower p0 = ''get''"
  shows "handle_command c g = Raised IndexError g"
  using assms by (simp add: handle_command_def Let_def)

lemma handle_command_total:
  assumes "sum_list (map snd (villagers g)) \<le> TOTAL_VILLAGERS"
  shows "sum_list (map snd (villagers (state_of (handle_command c g)))) \<le> TOTAL_VILLAGERS"
  using assms by (simp add: handle_command_def Let_def sum_list_update split: option.split)

lemma update_loop_villagers:
  "villagers (state_of (update_loop rts g)) = villagers g"
  by (induction rts arbitrary: g) (simp_all split: option.split sum.split)

lemma tick_villagers: "villagers (state_of (tick g)) = villagers g"
proof -
  have "villagers (state_of (update_resources g)) = villagers g"
    by (simp add: update_resources_def update_loop_villagers)
  then show ?thesis
    by (cases "update_resources g") (simp_all add: tick_def)
qed

subsection \<open>Powers of two and the binary exponent\<close>

lemma pow2_powi: "pow2 k = 2 powi k"
  by (simp add: pow2_def power_int_def inverse_eq_divide power_one_over)

lemma pow2_pos [simp]: "0 < pow2 k"
  by (simp add: pow2_powi)

lemma pow2_nonneg [simp]: "0 \<le> pow2 k"
  by (simp add: pow2_powi)

lemma pow2_not_le0 [simp]: "\<not> pow2 k \<le> 0"
  using pow2_pos[of k] by linarith

lemma pow2_neq0 [simp]: "pow2 k \<noteq> 0"
  using pow2_pos[of k] by linarith

lemma pow2_add: "pow2 (a + b) = pow2 a * pow2 b"
  by (simp add: pow2_powi power_int_add)

lemma pow2_le: "a \<le> b \<Longrightarrow> pow2 a \<le> pow2 b"
  by (simp add: pow2_powi power_int_increasing)

lemma pow2_less: "a < b \<Longrightarrow> pow2 a < pow2 b"
  by (simp add: pow2_powi power_int_strict_increasing)

lemma pow2_nat: "0 \<le> k \<Longrightarrow> pow2 k = 2 ^ nat k"
  by (simp add: pow2_def)

lemma pow2_minus: "pow2 (- k) = 1 / pow2 k"
  by (simp add: pow2_powi power_int_minus_divide)

lemma floor_log2_lower:
  assumes "0 < q" shows "pow2 (floor_log2 q) \<le> q"
proof (cases "1 \<le> q")
  case True
  let ?n = "\<lfloor>q\<rfloor>"
  have n: "0 < ?n" using True by simp
  have b: "1 \<le> bitlen ?n" using n by (simp add: bitlen_alt_def)
  from bitlen_bounds[OF n] have "2 ^ nat (bitlen ?n - 1) \<le> ?n" by simp
  then have "(of_int (2 ^ nat (bitlen ?n - 1)) :: rat) \<le> of_int ?n" by (simp only: of_int_le_iff)
  also have "\<dots> \<le> q" by simp
  finally have "(2::rat) ^ nat (bitlen ?n - 1) \<le> q" by simp
  then show ?thesis using True b by (simp add: floor_log2_def pow2_nat)
next
  case False
  let ?n = "\<lceil>1 / q\<rceil> - 1"
  have "1 < 1 / q" using False assms by simp
  then have n: "0 < ?n" by linarith
  have "1 / q \<le> of_int ?n + 1" by simp
  also have "?n + 1 \<le> 2 ^ nat (bitlen ?n)" using bitlen_bounds[OF n] by simp
  then have "(of_int ?n + 1 :: rat) \<le> 2 ^ nat (bitlen ?n)"
  proof -
    assume "?n + 1 \<le> 2 ^ nat (bitlen ?n)"
    then have "(of_int (?n + 1) :: rat) \<le> of_int (2 ^ nat (bitlen ?n))" by (simp only: of_int_le_iff)
    then show ?thesis by simp
  qed
  finally have "1 / q \<le> pow2 (bitlen ?n)" by (simp add: pow2_nat bitlen_nonneg)
  then have "1 / pow2 (bitlen ?n) \<le> q" using assms
    by (simp add: field_simps)
  then show ?thesis using False by (simp add: floor_log2_def pow2_minus)
qed

lemma floor_log2_upper:
  assumes "0 < q" shows "q < pow2 (floor_log2 q + 1)"
proof (cases "1 \<le> q")
  case True
  let ?n = "\<lfloor>q\<rfloor>"
  have n: "0 < ?n" using True by simp
  have b: "1 \<le> bitlen ?n" using n by (simp add: bitlen_alt_def)
  from bitlen_bounds[OF n] have "?n + 1 \<le> 2 ^ nat (bitlen ?n)" by simp
  then have "(of_int ?n + 1 :: rat) \<le> 2 ^ nat (bitlen ?n)"
  proof -
    assume "?n + 1 \<le> 2 ^ nat (bitlen ?n)"
    then have "(of_int (?n + 1) :: rat) \<le> of_int (2 ^ nat (bitlen ?n))" by (simp only: of_int_le_iff)
    then show ?thesis by simp
  qed
  moreover have "q < of_int ?n + 1" by linarith
  ultimately have "q < 2 ^ nat (bitlen ?n)" by linarith
  then show ?thesis using True b by (simp add: floor_log2_def pow2_nat)
next
  case False
  let ?n = "\<lceil>1 / q\<rceil> - 1"
  have "1 < 1 / q" using False assms by simp
  then have n: "0 < ?n" by linarith
  have b: "1 \<le> bitlen ?n" using n by (simp add: bitlen_alt_def)
  from bitlen_bounds[OF n] have "2 ^ nat (bitlen ?n - 1) \<le> ?n" by simp
  then have "(of_int (2 ^ nat (bitlen ?n - 1)) :: rat) \<le> of_int ?n" by (simp only: of_int_le_iff)
  then have "(2::rat) ^ nat (bitlen ?n - 1) \<le> of_int ?n" by simp
  also have "(of_int ?n :: rat) < 1 / q" by linarith
  finally have "pow2 (bitlen ?n - 1) < 1 / q" using b by (simp add: pow2_nat)
  then have "q < 1 / pow2 (bitlen ?n - 1)" using assms
    by (simp add: field_simps)
  also have "1 / pow2 (bitlen ?n - 1) = pow2 (- bitlen ?n + 1)"
    using pow2_minus[of "bitlen ?n - 1"] by simp
  finally show ?thesis using False by (simp add: floor_log2_def)
qed

lemma floor_log2_unique:
  assumes "0 < q" "pow2 e \<le> q" "q < pow2 (e + 1)"
  shows "floor_log2 q = e"
proof (rule ccontr)
  assume ne: "floor_log2 q \<noteq> e"
  show False
  proof (cases "floor_log2 q < e")
    case True
    then have "pow2 (floor_log2 q + 1) \<le> pow2 e" by (intro pow2_le) simp
    with floor_log2_upper[OF assms(1)] assms(2) show False by linarith
  next
    case False
    with ne have "e + 1 \<le> floor_log2 q" by simp
    then have "pow2 (e + 1) \<le> pow2 (floor_log2 q)" by (rule pow2_le)
    with floor_log2_lower[OF assms(1)] assms(3) show False by linarith
  qed
qed

lemma floor_log2_mono:
  assumes "0 < x" "x \<le> y"
  shows "floor_log2 x \<le> floor_log2 y"
proof (rule ccontr)
  assume "\<not> floor_log2 x \<le> floor_log2 y"
  then have "floor_log2 y + 1 \<le> floor_log2 x" by simp
  then have "pow2 (floor_log2 y + 1) \<le> pow2 (floor_log2 x)" by (rule pow2_le)
  moreover have "0 < y" using assms by simp
  ultimately show False
    using floor_log2_lower[OF assms(1)] floor_log2_upper[of y] assms(2) by linarith
qed

lemma floor_log2_le: "0 < r \<Longrightarrow> r \<le> pow2 k \<Longrightarrow> floor_log2 r \<le> k"
proof (rule ccontr)
  assume a: "0 < r" "r \<le> pow2 k" "\<not> floor_log2 r \<le> k"
  then have "pow2 k < pow2 (floor_log2 r)" by (intro pow2_less) simp
  with floor_log2_lower[OF a(1)] a(2) show False by linarith
qed

lemma floor_log2_ge: "0 < r \<Longrightarrow> pow2 k \<le> r \<Longrightarrow> k \<le> floor_log2 r"
proof (rule ccontr)
  assume a: "0 < r" "pow2 k \<le> r" "\<not> k \<le> floor_log2 r"
  then have "pow2 (floor_log2 r + 1) \<le> pow2 k" by (intro pow2_le) simp
  with floor_log2_upper[OF a(1)] a(2) show False by linarith
qed

subsection \<open>Rounding to the nearest integer, ties to even\<close>

lemma round_half_even_of_int [simp]: "round_half_even (of_int n) = n"
  by (simp add: round_half_even_def)

lemma round_half_even_zero [simp]: "round_half_even 0 = 0"
  using round_half_even_of_int[of 0] by simp

lemma round_half_even_floor: "\<lfloor>y\<rfloor> \<le> round_half_even y"
  by (simp add: round_half_even_def Let_def)

lemma round_half_even_floor1: "round_half_even y \<le> \<lfloor>y\<rfloor> + 1"
  by (simp add: round_half_even_def Let_def)

lemma round_half_even_mono:
  assumes "x \<le> y" shows "round_half_even x \<le> round_half_even y"
proof (cases "\<lfloor>x\<rfloor> < \<lfloor>y\<rfloor>")
  case True
  then show ?thesis
    using round_half_even_floor1[of x] round_half_even_floor[of y] by linarith
next
  case False
  then have eq: "\<lfloor>x\<rfloor> = \<lfloor>y\<rfloor>" using floor_mono[OF assms] by linarith
  then show ?thesis using assms
    by (simp add: round_half_even_def Let_def)
qed

lemma round_half_even_neg: "round_half_even (- x) = - round_half_even x"
proof (cases "x = of_int \<lfloor>x\<rfloor>")
  case True
  then obtain n where "x = of_int n" ..
  then show ?thesis
    using round_half_even_of_int[of "- n"] by simp
next
  case False
  then have lt: "of_int \<lfloor>x\<rfloor> < x" using of_int_floor_le[of x] by linarith
  have "x < of_int \<lfloor>x\<rfloor> + 1" by linarith
  with lt have f: "\<lfloor>- x\<rfloor> = - \<lfloor>x\<rfloor> - 1" by (intro floor_unique) simp_all
  show ?thesis
    using lt by (auto simp add: round_half_even_def Let_def f)
qed

subsection \<open>Rounding to a double: sign, monotonicity, idempotence\<close>

lemma double_exponent_neg [simp]: "double_exponent (- q) = double_exponent q"
  by (simp add: double_exponent_def)

lemma round_to_grid_neg: "round_to_grid (- q) = - round_to_grid q"
  by (simp add: round_to_grid_def Let_def round_half_even_neg)

lemma round_to_grid_zero [simp]: "round_to_grid 0 = 0"
  by (simp add: round_to_grid_def)

lemma double_exponent_mono:
  "0 < x \<Longrightarrow> x \<le> y \<Longrightarrow> double_exponent x \<le> double_exponent y"
  using floor_log2_mono[of x y] by (simp add: double_exponent_def)

lemma pow2_53_mult: "of_int (2 ^ 53) * pow2 (e - 52) = pow2 (e + 1)"
proof -
  have "pow2 (e + 1) = pow2 ((e - 52) + 53)" by (rule arg_cong[where f = pow2]) simp
  also have "\<dots> = pow2 (e - 52) * pow2 53" by (rule pow2_add)
  finally show ?thesis by (simp add: pow2_def)
qed

lemma pow2_52_mult: "of_int (2 ^ 52) * pow2 (e - 52) = pow2 e"
proof -
  have "pow2 e = pow2 ((e - 52) + 52)" by (rule arg_cong[where f = pow2]) simp
  also have "\<dots> = pow2 (e - 52) * pow2 52" by (rule pow2_add)
  finally show ?thesis by (simp add: pow2_def)
qed

lemma pow2_53: "pow2 (e + 1) / pow2 (e - 52) = of_int (2 ^ 53)"
  by (simp only: pow2_53_mult[symmetric]) simp

lemma pow2_52: "pow2 e / pow2 (e - 52) = of_int (2 ^ 52)"
  by (simp only: pow2_52_mult[of e, symmetric]) simp

lemma round_to_grid_le:
  assumes "q \<le> pow2 (double_exponent q + 1)"
  shows "round_to_grid q \<le> pow2 (double_exponent q + 1)"
proof -
  let ?e = "double_exponent q" let ?u = "pow2 (?e - 52)"
  have "q / ?u \<le> pow2 (?e + 1) / ?u" using assms by (intro divide_right_mono) simp_all
  then have "q / ?u \<le> of_int (2 ^ 53)" by (simp only: pow2_53)
  from round_half_even_mono[OF this] have "round_half_even (q / ?u) \<le> 2 ^ 53"
    by (simp only: round_half_even_of_int)
  then have "(of_int (round_half_even (q / ?u)) :: rat) \<le> of_int (2 ^ 53)"
    by (simp only: of_int_le_iff)
  then have "of_int (round_half_even (q / ?u)) * ?u \<le> of_int (2 ^ 53) * ?u"
    by (intro mult_right_mono) simp_all
  also have "of_int (2 ^ 53) * ?u = pow2 (?e + 1)"
    by (rule pow2_53_mult)
  finally show ?thesis by (simp add: round_to_grid_def Let_def)
qed

lemma round_to_grid_ge:
  assumes "pow2 (double_exponent q) \<le> q"
  shows "pow2 (double_exponent q) \<le> round_to_grid q"
proof -
  let ?e = "double_exponent q" let ?u = "pow2 (?e - 52)"
  have "pow2 ?e / ?u \<le> q / ?u" using assms by (intro divide_right_mono) simp_all
  then have "of_int (2 ^ 52) \<le> q / ?u" by (simp only: pow2_52)
  from round_half_even_mono[OF this] have "2 ^ 52 \<le> round_half_even (q / ?u)"
    by (simp only: round_half_even_of_int)
  then have "(of_int (2 ^ 52) :: rat) \<le> of_int (round_half_even (q / ?u))"
    by (simp only: of_int_le_iff)
  then have "of_int (2 ^ 52) * ?u \<le> of_int (round_half_even (q / ?u)) * ?u"
    by (intro mult_right_mono) simp_all
  then have "pow2 ?e \<le> of_int (round_half_even (q / ?u)) * ?u"
    by (simp only: pow2_52_mult)
  then show ?thesis by (simp add: round_to_grid_def Let_def)
qed

lemma below_next_power:
  assumes "0 < q" shows "q < pow2 (double_exponent q + 1)"
proof -
  have "floor_log2 q + 1 \<le> double_exponent q + 1" using assms by (simp add: double_exponent_def)
  then have "pow2 (floor_log2 q + 1) \<le> pow2 (double_exponent q + 1)" by (rule pow2_le)
  with floor_log2_upper[OF assms] show ?thesis by linarith
qed

lemma round_to_grid_nonneg:
  assumes "0 \<le> q" shows "0 \<le> round_to_grid q"
proof -
  let ?u = "pow2 (double_exponent q - 52)"
  have "0 \<le> q / ?u" using assms by (intro divide_nonneg_nonneg) simp_all
  from round_half_even_mono[OF this] have "0 \<le> round_half_even (q / ?u)" by simp
  then show ?thesis by (simp add: round_to_grid_def Let_def)
qed

lemma round_to_grid_mono_pos:
  assumes "0 < x" "x \<le> y"
  shows "round_to_grid x \<le> round_to_grid y"
proof (cases "double_exponent x = double_exponent y")
  case True
  let ?u = "pow2 (double_exponent y - 52)"
  have "x / ?u \<le> y / ?u" using assms by (intro divide_right_mono) simp_all
  from round_half_even_mono[OF this]
  have "(of_int (round_half_even (x / ?u)) :: rat) \<le> of_int (round_half_even (y / ?u))"
    by (simp only: of_int_le_iff)
  then have "of_int (round_half_even (x / ?u)) * ?u \<le> of_int (round_half_even (y / ?u)) * ?u"
    by (intro mult_right_mono) simp_all
  then show ?thesis by (simp add: round_to_grid_def Let_def True)
next
  case False
  have y: "0 < y" using assms by simp
  from False double_exponent_mono[OF assms] have lt: "double_exponent x < double_exponent y" by simp
  have "- 1022 \<le> double_exponent x" by (simp add: double_exponent_def)
  with lt have "- 1022 < double_exponent y" by linarith
  then have "double_exponent y = floor_log2 y"
    using y by (simp add: double_exponent_def max_def split: if_splits)
  with floor_log2_lower[OF y] have "pow2 (double_exponent y) \<le> y" by simp
  from round_to_grid_ge[OF this] have 1: "pow2 (double_exponent y) \<le> round_to_grid y" .
  have "x \<le> pow2 (double_exponent x + 1)" using below_next_power[OF assms(1)] by simp
  from round_to_grid_le[OF this] have 2: "round_to_grid x \<le> pow2 (double_exponent x + 1)" .
  have "pow2 (double_exponent x + 1) \<le> pow2 (double_exponent y)" using lt by (intro pow2_le) simp
  with 1 2 show ?thesis by linarith
qed

lemma round_to_grid_mono:
  assumes "x \<le> y" shows "round_to_grid x \<le> round_to_grid y"
proof -
  consider "0 < x" | "x \<le> 0" "0 \<le> y" | "y < 0" by linarith
  then show ?thesis
  proof cases
    case 1
    then show ?thesis using assms by (rule round_to_grid_mono_pos)
  next
    case 2
    have "0 \<le> round_to_grid (- x)" using 2 by (intro round_to_grid_nonneg) simp
    then have "round_to_grid x \<le> 0" by (simp add: round_to_grid_neg)
    with round_to_grid_nonneg[OF 2(2)] show ?thesis by linarith
  next
    case 3
    have "round_to_grid (- y) \<le> round_to_grid (- x)"
      using 3 assms by (intro round_to_grid_mono_pos) simp_all
    then show ?thesis by (simp add: round_to_grid_neg)
  qed
qed

lemma round_double_classify: "round_double q = classify (round_to_grid q)"
  by (simp add: round_double_def classify_def)

lemma classify_mono: "a \<le> b \<Longrightarrow> fle (classify a) (classify b)"
proof -
  have "- pow2 1024 < pow2 1024"
    using pow2_pos[of 1024] by linarith
  then show "a \<le> b \<Longrightarrow> fle (classify a) (classify b)"
    by (auto simp add: classify_def)
qed

lemma round_double_mono: "x \<le> y \<Longrightarrow> fle (round_double x) (round_double y)"
  by (simp add: round_double_classify classify_mono round_to_grid_mono)

lemma floor_log2_less: "0 < r \<Longrightarrow> r < pow2 k \<Longrightarrow> floor_log2 r < k"
proof (rule ccontr)
  assume a: "0 < r" "r < pow2 k" "\<not> floor_log2 r < k"
  then have "pow2 k \<le> pow2 (floor_log2 r)" by (intro pow2_le) simp
  with floor_log2_lower[OF a(1)] a(2) show False by linarith
qed

lemma round_to_grid_fixed:
  assumes "r = of_int m * pow2 (double_exponent r - 52)"
  shows "round_to_grid r = r"
proof -
  let ?u = "pow2 (double_exponent r - 52)"
  have "r / ?u = of_int m" using assms by (simp add: field_simps)
  then have "round_half_even (r / ?u) = m" by simp
  then show ?thesis using assms by (simp add: round_to_grid_def Let_def)
qed

lemma round_to_grid_idem_pos:
  assumes "0 < q"
  shows "round_to_grid (round_to_grid q) = round_to_grid q"
proof -
  let ?e = "double_exponent q"
  let ?m = "round_half_even (q / pow2 (?e - 52))"
  let ?r = "round_to_grid q"
  have r: "?r = of_int ?m * pow2 (?e - 52)" by (simp add: round_to_grid_def Let_def)
  have e: "- 1022 \<le> ?e" by (simp add: double_exponent_def)
  have nonneg: "0 \<le> ?r" using assms by (intro round_to_grid_nonneg) simp
  have "q \<le> pow2 (?e + 1)" using below_next_power[OF assms] by simp
  from round_to_grid_le[OF this] have up: "?r \<le> pow2 (?e + 1)" .
  show ?thesis
  proof (cases "?r = 0")
    case True
    then show ?thesis by simp
  next
    case False
    with nonneg have pos: "0 < ?r" by simp
    show ?thesis
    proof (cases "?r = pow2 (?e + 1)")
      case True
      have "pow2 (?e + 1) < pow2 (?e + 1 + 1)" by (intro pow2_less) simp
      then have "floor_log2 ?r = ?e + 1"
        using pos True by (intro floor_log2_unique) simp_all
      then have "double_exponent ?r = ?e + 1"
        using e pos by (simp add: double_exponent_def)
      moreover have "?r = of_int (2 ^ 52) * pow2 (?e + 1 - 52)"
        using pow2_52_mult[of "?e + 1"] True by simp
      ultimately have "?r = of_int (2 ^ 52) * pow2 (double_exponent ?r - 52)" by simp
      then show ?thesis by (rule round_to_grid_fixed)
    next
      case False
      with up have lt: "?r < pow2 (?e + 1)" by simp
      from floor_log2_less[OF pos lt] have fl: "floor_log2 ?r \<le> ?e" by simp
      have "double_exponent ?r = ?e"
      proof (cases "?e = - 1022")
        case True
        then show ?thesis using fl pos by (simp add: double_exponent_def)
      next
        case False
        with e have "- 1022 < ?e" by simp
        then have "?e = floor_log2 q"
          using assms by (simp add: double_exponent_def max_def split: if_splits)
        with floor_log2_lower[OF assms] have "pow2 ?e \<le> q" by simp
        from round_to_grid_ge[OF this] have "pow2 ?e \<le> ?r" .
        from floor_log2_ge[OF pos this] fl have "floor_log2 ?r = ?e" by simp
        then show ?thesis using pos e by (simp add: double_exponent_def)
      qed
      with r have "?r = of_int ?m * pow2 (double_exponent ?r - 52)" by simp
      then show ?thesis by (rule round_to_grid_fixed)
    qed
  qed
qed

lemma round_to_grid_idem: "round_to_grid (round_to_grid q) = round_to_grid q"
proof -
  consider "0 < q" | "q = 0" | "q < 0" by linarith
  then show ?thesis
  proof cases
    case 1
    then show ?thesis by (rule round_to_grid_idem_pos)
  next
    case 2
    then show ?thesis by simp
  next
    case 3
    then have "round_to_grid (round_to_grid (- q)) = round_to_grid (- q)"
      by (intro round_to_grid_idem_pos) simp
    then show ?thesis by (simp add: round_to_grid_neg)
  qed
qed

lemma classify_Finite: "classify r = Finite x \<Longrightarrow> x = r"
  by (simp add: classify_def split: if_splits)

lemma round_double_idem:
  assumes "round_double q = Finite r" shows "round_double r = Finite r"
proof -
  from assms have c: "classify (round_to_grid q) = Finite r"
    by (simp add: round_double_classify)
  from classify_Finite[OF this] have r: "r = round_to_grid q" .
  with round_to_grid_idem[of q] have "round_to_grid r = r" by simp
  with c r show ?thesis by (simp add: round_double_classify)
qed

lemma is_double_round_double [simp]: "is_double (round_double q)"
  by (cases "round_double q") (simp_all add: is_double_def round_double_idem)

lemma round_double_not_NaN [simp]: "round_double q \<noteq> NaN"
  by (simp add: round_double_classify classify_def)

lemma is_double_zero [simp]: "is_double (Finite 0)"
  by (simp add: is_double_def round_double_def)

lemma round_half_even_nearest:
  assumes "\<bar>y - of_int m\<bar> < 1 / 2"
  shows "round_half_even y = m"
proof -
  from assms have "of_int m - 1 / 2 < y" "y < of_int m + 1 / 2" by linarith+
  then consider "of_int m \<le> y" "y < of_int m + 1 / 2" | "of_int (m - 1) \<le> y" "y < of_int m" "of_int m - 1 / 2 < y"
    by (cases "of_int m \<le> y") auto
  then show ?thesis
  proof cases
    case 1
    then have "\<lfloor>y\<rfloor> = m" by (intro floor_unique) linarith+
    with 1 show ?thesis by (simp add: round_half_even_def Let_def)
  next
    case 2
    then have "\<lfloor>y\<rfloor> = m - 1" by (intro floor_unique) simp_all
    with 2 show ?thesis by (simp add: round_half_even_def Let_def)
  qed
qed

subsection \<open>The doubles the program meets\<close>

lemma round_double_eval:
  assumes "pow2 e \<le> q" "q < pow2 (e + 1)" "- 1022 \<le> e" "e \<le> 1022"
      and "\<bar>q / pow2 (e - 52) - of_int m\<bar> < 1 / 2"
  shows "round_double q = Finite (of_int m * pow2 (e - 52))"
proof -
  have m: "round_half_even (q / pow2 (e - 52)) = m"
    using assms(5) by (rule round_half_even_nearest)
  have q: "0 < q" using pow2_pos[of e] assms(1) by linarith
  from floor_log2_unique[OF q assms(1,2)] have "floor_log2 q = e" .
  then have e: "double_exponent q = e" using q assms(3) by (simp add: double_exponent_def)
  then have r: "round_to_grid q = of_int m * pow2 (e - 52)"
    using m by (simp add: round_to_grid_def Let_def)
  have "q \<le> pow2 (double_exponent q + 1)" using assms(2) e by simp
  from round_to_grid_le[OF this] have "round_to_grid q \<le> pow2 (e + 1)" using e by simp
  also have "pow2 (e + 1) < pow2 1024" using assms(4) by (intro pow2_less) simp
  finally have up: "round_to_grid q < pow2 1024" .
  have "0 \<le> round_to_grid q" using q by (intro round_to_grid_nonneg) simp
  then have lo: "- pow2 1024 < round_to_grid q" using pow2_pos[of 1024] by linarith
  from up lo r q show ?thesis by (simp add: round_double_def classify_def)
qed


lemma rate_stone: "round_double (90 / 100) = Finite (8106479329266893 / 9007199254740992)"
  using round_double_eval[of "-1" "90 / 100" 8106479329266893]
  by (simp add: pow2_def)

lemma rate_wood: "round_double (1 / 1000) = Finite (1152921504606847 / 1152921504606846976)"
  using round_double_eval[of "-10" "1 / 1000" 4611686018427388]
  by (simp add: pow2_def)

lemma rate_food: "round_double (1 / 10000) = Finite (7378697629483821 / 73786976294838206464)"
  using round_double_eval[of "-14" "1 / 10000" 7378697629483821]
  by (simp add: pow2_def)





subsection \<open>The gain of one pass\<close>



lemma classify_neg: "classify (- r) = fneg (classify r)"
proof -
  define P where "P = pow2 1024"
  have "0 < P" by (simp add: P_def)
  then show ?thesis unfolding classify_def P_def[symmetric] by auto
qed

lemma round_double_neg: "round_double (- q) = fneg (round_double q)"
  by (simp add: round_double_classify round_to_grid_neg classify_neg)

lemma round_double_zero [simp]: "round_double 0 = Finite 0"
  by (simp add: round_double_def)

lemma round_double_one: "round_double 1 = Finite 1"
  using round_double_eval[of 0 1 4503599627370496] by (simp add: pow2_def)

lemma round_double_unit:
  assumes "0 \<le> q" "q \<le> 1"
  shows "\<exists>r. round_double q = Finite r \<and> 0 \<le> r \<and> r \<le> 1"
proof -
  from round_double_mono[OF assms(1)] have lo: "fle (Finite 0) (round_double q)" by simp
  from round_double_mono[OF assms(2)] have hi: "fle (round_double q) (Finite 1)"
    by (simp add: round_double_one)
  from lo hi show ?thesis by (cases "round_double q") simp_all
qed

lemma rate_in_unit:
  assumes "map_of RESOURCE_PERCENTAGES rt = Some rate"
  shows "\<exists>r. rate = Finite r \<and> 0 \<le> r \<and> r \<le> 1"
proof -
  have "\<exists>q. rate = round_double q \<and> 0 \<le> q \<and> q \<le> 1"
    using assms by (auto simp add: RESOURCE_PERCENTAGES_def split: if_splits)
  then obtain q where "rate = round_double q" "0 \<le> q" "q \<le> 1" by auto
  with round_double_unit[of q] show ?thesis by simp
qed



subsection \<open>The accumulator loop\<close>






lemma ticks_Suc_state:
  "state_of (ticks (Suc n) g) =
     (case tick g of Returned g' \<Rightarrow> state_of (ticks n g') | Raised e g' \<Rightarrow> g')"
  by (simp split: outcome.split)


lemma round_double_of_int_pos:
  assumes "0 < v" "v \<le> 2 ^ 53"
  shows "round_double (of_int v) = Finite (of_int v)"
proof -
  let ?q = "of_int v :: rat"
  let ?E = "floor_log2 ?q"
  have q: "0 < ?q" using assms(1) by simp
  have "pow2 0 \<le> ?q" using assms(1) by (simp add: pow2_def)
  from floor_log2_ge[OF q this] have E0: "0 \<le> ?E" .
  have "?q \<le> of_int (2 ^ 53)" using assms(2) by (simp only: of_int_le_iff)
  then have q53: "?q \<le> pow2 53" by (simp add: pow2_def)
  from floor_log2_le[OF q this] have E53: "?E \<le> 53" .
  have de: "double_exponent ?q = ?E" using q E0 by (simp add: double_exponent_def)
  have "\<exists>m. ?q = of_int m * pow2 (?E - 52)"
  proof (cases "?E \<le> 52")
    case True
    have "pow2 (?E - 52) * pow2 (52 - ?E) = pow2 0" using pow2_add[of "?E - 52" "52 - ?E"] by simp
    then have "pow2 (?E - 52) * 2 ^ nat (52 - ?E) = 1" using True by (simp add: pow2_def)
    then have "?q = of_int (v * 2 ^ nat (52 - ?E)) * pow2 (?E - 52)"
      by (simp add: mult.assoc mult.commute)
    then show ?thesis ..
  next
    case False
    with E53 have E: "?E = 53" by simp
    with floor_log2_lower[OF q] have "pow2 53 \<le> ?q" by simp
    with q53 have "?q = pow2 53" by simp
    also have "\<dots> = of_int (2 ^ 52) * pow2 (53 - 52)" using pow2_52_mult[of 53] by simp
    finally show ?thesis using E by auto
  qed
  then obtain m where "?q = of_int m * pow2 (double_exponent ?q - 52)" using de by auto
  from round_to_grid_fixed[OF this] have r: "round_to_grid ?q = ?q" .
  have "pow2 53 < pow2 1024" by (intro pow2_less) simp
  with q53 have "?q < pow2 1024" by linarith
  moreover have "- pow2 1024 < ?q" using q pow2_pos[of 1024] by linarith
  ultimately show ?thesis using r by (simp add: round_double_classify classify_def)
qed

lemma float_of_int_small:
  assumes "\<bar>v\<bar> \<le> 2 ^ 53"
  shows "float_of_int v = Inr (Finite (of_int v))"
proof -
  consider "0 < v" | "v = 0" | "v < 0" by linarith
  then have "round_double (of_int v) = Finite (of_int v)"
  proof cases
    case 1
    then show ?thesis using assms by (intro round_double_of_int_pos) simp_all
  next
    case 2
    then show ?thesis by simp
  next
    case 3
    then have "round_double (of_int (- v)) = Finite (of_int (- v))"
      using assms by (intro round_double_of_int_pos) simp_all
    then have "round_double (- of_int v) = Finite (- of_int v)" by simp
    then show ?thesis by (simp add: round_double_neg) (cases "round_double (of_int v)", simp_all)
  qed
  then show ?thesis by (simp add: float_of_int_def)
qed


lemma resource_gain_clamped:
  assumes "v < 0" "- (2 ^ 53) \<le> v" "map_of RESOURCE_PERCENTAGES rt = Some rate"
  shows "resource_gain v rate = Inr (Finite 0)"
proof -
  from rate_in_unit[OF assms(3)] obtain r where r: "rate = Finite r" "0 \<le> r" "r \<le> 1" by auto
  have f: "float_of_int v = Inr (Finite (of_int v))" using assms(1,2) by (intro float_of_int_small) simp
  have "of_int v * r \<le> 0" using assms(1) r(2) by (simp add: mult_le_0_iff)
  from round_double_mono[OF this] have "fle (round_double (of_int v * r)) (Finite 0)" by simp
  then have "(if fless (round_double (of_int v * r)) (Finite 0) then Finite 0
      else round_double (of_int v * r)) = Finite 0"
    by (cases "round_double (of_int v * r)") auto
  then show ?thesis by (simp add: resource_gain_def f r(1))
qed













subsection \<open>C1: a \<^verbatim>\<open>get\<close> command of three tokens\<close>

text \<open>
  C1. The claim is that every \<^verbatim>\<open>get\<close> command shorter than the full form, three
  tokens included, reports the usage error and raises nothing. The guard of the source is
  \<^verbatim>\<open>len(parts) < 3\<close>, one short of the index \<^verbatim>\<open>parts[3]\<close> read next: on
  \<^verbatim>\<open>get gold with\<close> the command raises \<^verbatim>\<open>IndexError\<close> with the state as it
  was, and the input loop of \<^verbatim>\<open>main\<close> logs the exception and stops reading.
\<close>

theorem get_three_tokens_raises_IndexError:
  "handle_command ''get gold with'' g = Raised IndexError g \<and>
   main_loop (''get gold with'' # rest) g =
     (False, log_message (Line ''Game exited due to error.'')
        (log_message (Line ''An unexpected error occurred: list index out of range'') g))"
proof -
  have s: "strip ''get gold with'' = ''get gold with''" by code_simp
  have p: "py_split ''get gold with'' = [''get'', ''gold'', ''with'']" by code_simp
  have l: "lower ''get'' = ''get''" by code_simp
  have h: "handle_command ''get gold with'' g = Raised IndexError g"
    by (simp add: handle_command_def p l)
  show ?thesis by (simp add: h s)
qed

subsection \<open>C2: the sign of a stored count\<close>

text \<open>
  C2, as stated, fails: \<^verbatim>\<open>get gold with -5 villagers\<close> in the initial state is accepted
  (\<open>0 - 0 + (- 5) \<le> 100\<close>) and stores \<open>- 5\<close>; the state is reachable.
\<close>

theorem get_negative_count_stored:
  "reachable (state_of (handle_command ''get gold with -5 villagers'' initial_game))
   \<and> map_of (villagers (state_of (handle_command ''get gold with -5 villagers'' initial_game))) ''gold''
       = Some (- 5)"
proof -
  have "map_of (villagers (state_of (handle_command ''get gold with -5 villagers'' initial_game))) ''gold''
      = Some (- 5)"
    by code_simp
  with reachable.command[OF reachable.start] show ?thesis by (rule conjI)
qed

text \<open>
  C2, amended. A successful \<^verbatim>\<open>get\<close> (a known resource, an integer count \<open>n\<close>, a
  total within the bound) stores exactly \<open>n\<close> for that resource, whatever its sign; when
  all counts were non-negative before and \<open>0 \<le> n\<close>, all counts are non-negative after.
\<close>

theorem get_stores_count_as_parsed:
  assumes "py_split c = p0 # p1 # p2 # p3 # rest" and "lower p0 = ''get''"
    and "py_int p3 = Some n" and "lower p1 \<in> set RESOURCE_TYPES"
    and "map_of (villagers g) (lower p1) = Some assigned"
    and "sum_list (map snd (villagers g)) - assigned + n \<le> TOTAL_VILLAGERS"
  shows "handle_command c g =
           Returned (log_message (Line (set_message n (lower p1)))
             (save_villagers (g\<lparr>villagers := AList.update (lower p1) n (villagers g)\<rparr>)))
       \<and> map_of (villagers (state_of (handle_command c g))) (lower p1) = Some n
       \<and> ((\<forall>v \<in> snd ` set (villagers g). 0 \<le> v) \<and> 0 \<le> n \<longrightarrow>
            (\<forall>v \<in> snd ` set (villagers (state_of (handle_command c g))). 0 \<le> v))"
proof -
  have h: "handle_command c g =
           Returned (log_message (Line (set_message n (lower p1)))
             (save_villagers (g\<lparr>villagers := AList.update (lower p1) n (villagers g)\<rparr>)))"
    using assms by (simp add: handle_command_def Let_def)
  have v: "villagers (state_of (handle_command c g)) = AList.update (lower p1) n (villagers g)"
    by (simp add: h)
  have "map_of (AList.update (lower p1) n (villagers g)) (lower p1) = Some n"
    by (simp add: update_conv')
  moreover have "(\<forall>v \<in> snd ` set (villagers g). 0 \<le> v) \<and> 0 \<le> n \<longrightarrow>
        (\<forall>v \<in> snd ` set (AList.update (lower p1) n (villagers g)). 0 \<le> v)"
  proof
    assume a: "(\<forall>v \<in> snd ` set (villagers g). 0 \<le> v) \<and> 0 \<le> n"
    from a have 1: "\<forall>v \<in> snd ` set (villagers g). 0 \<le> v" by (rule conjunct1)
    from a have 2: "0 \<le> n" by (rule conjunct2)
    from update_nonneg[OF 1 2]
    show "\<forall>v \<in> snd ` set (AList.update (lower p1) n (villagers g)). 0 \<le> v" .
  qed
  ultimately show ?thesis using h v by simp
qed

text \<open>
  C2, the amended statement at \<^verbatim>\<open>get Gold with 10 villagers\<close> in the initial state.
\<close>

theorem get_stores_count_as_parsed_witness:
  "map_of (villagers (state_of (handle_command ''get Gold with 10 villagers'' initial_game))) ''gold''
     = Some 10
   \<and> list_all (\<lambda>v. 0 \<le> v)
        (map snd (villagers (state_of (handle_command ''get Gold with 10 villagers'' initial_game))))"
proof -
  have p: "py_split ''get Gold with 10 villagers'' = [''get'', ''Gold'', ''with'', ''10'', ''villagers'']"
    by code_simp
  have l0: "lower ''get'' = ''get''" by code_simp
  have l1: "lower ''Gold'' = ''gold''" by code_simp
  have i: "py_int ''10'' = Some 10" by code_simp
  have r: "lower ''Gold'' \<in> set RESOURCE_TYPES" by (simp add: l1 RESOURCE_TYPES_def)
  have m: "map_of (villagers initial_game) (lower ''Gold'') = Some 0"
    by (simp add: l1 initial_game_def default_villagers_def)
  have t: "sum_list (map snd (villagers initial_game)) - 0 + 10 \<le> TOTAL_VILLAGERS"
    by (simp add: initial_game_def default_villagers_def TOTAL_VILLAGERS_def)
  have n: "\<forall>v \<in> snd ` set (villagers initial_game). 0 \<le> v"
    by (simp add: initial_game_def default_villagers_def)
  note th = get_stores_count_as_parsed[OF p l0 i r m t]
  have A: "map_of (villagers (state_of (handle_command ''get Gold with 10 villagers'' initial_game)))
      (lower ''Gold'') = Some 10"
    by (rule th[THEN conjunct2, THEN conjunct1])
  have B: "\<forall>v \<in> snd ` set (villagers (state_of (handle_command ''get Gold with 10 villagers'' initial_game))).
        0 \<le> v"
  proof -
    have "(\<forall>v \<in> snd ` set (villagers initial_game). 0 \<le> v) \<and> (0::int) \<le> 10"
      using n by simp
    from th[THEN conjunct2, THEN conjunct2, THEN mp, OF this] show ?thesis .
  qed
  from B have C: "list_all (\<lambda>v. 0 \<le> v)
        (map snd (villagers (state_of (handle_command ''get Gold with 10 villagers'' initial_game))))"
    by (simp add: list_all_iff)
  from A[unfolded l1] C show ?thesis by (rule conjI)
qed

subsection \<open>C3: the workforce bound\<close>

text \<open>
  C3. In every state reachable from the zero-valued initial state by commands and passes
  of the accumulator, the counts of \<^verbatim>\<open>villagers\<close> sum to at most
  \<^verbatim>\<open>TOTAL_VILLAGERS\<close>. (The step for a command is \<open>handle_command_total\<close>: every
  \<^verbatim>\<open>get\<close>, successful or not, keeps the bound.)
\<close>

theorem villagers_total_bounded:
  "reachable g \<Longrightarrow> sum_list (map snd (villagers g)) \<le> TOTAL_VILLAGERS"
proof (induction rule: reachable.induct)
  case start
  show ?case by (simp add: initial_game_def default_villagers_def TOTAL_VILLAGERS_def)
next
  case (command g c)
  from command.IH show ?case by (rule handle_command_total)
next
  case (accumulate g)
  then show ?case by (simp add: tick_villagers)
qed

text \<open>
  C3 at the state after \<^verbatim>\<open>get gold with 10 villagers\<close> and one pass of the accumulator.
\<close>

theorem villagers_total_bounded_witness:
  "reachable (state_of (tick (state_of (handle_command ''get gold with 10 villagers'' initial_game))))
   \<and> sum_list (map snd (villagers
        (state_of (tick (state_of (handle_command ''get gold with 10 villagers'' initial_game))))))
      \<le> TOTAL_VILLAGERS"
proof -
  have r: "reachable (state_of (tick (state_of (handle_command ''get gold with 10 villagers'' initial_game))))"
    by (rule reachable.accumulate[OF reachable.command[OF reachable.start]])
  from r villagers_total_bounded[OF r] show ?thesis by (rule conjI)
qed

subsection \<open>C4: what a pass of the accumulator adds\<close>




subsection \<open>C5: stockpiles never decrease\<close>




subsection \<open>C6: over-allocation\<close>

text \<open>
  C6. A \<^verbatim>\<open>get\<close> whose count would take the total (the current total, less the
  count of the named resource, plus the new count) above \<^verbatim>\<open>TOTAL_VILLAGERS\<close> logs the
  over-allocation line, which prints the current total and the maximum, and changes
  neither \<^verbatim>\<open>villagers\<close>, nor its file, nor \<^verbatim>\<open>resources\<close>.
\<close>

theorem get_over_allocation_rejected:
  assumes "py_split c = p0 # p1 # p2 # p3 # rest" and "lower p0 = ''get''"
    and "py_int p3 = Some n" and "lower p1 \<in> set RESOURCE_TYPES"
    and "map_of (villagers g) (lower p1) = Some assigned"
    and "sum_list (map snd (villagers g)) - assigned + n > TOTAL_VILLAGERS"
  shows "handle_command c g =
     Returned (log_message (Line (''Too many villagers. You have ''
        @ str_int (sum_list (map snd (villagers g)))
        @ '' villagers assigned. You can assign a maximum of 100.'')) g)
    \<and> villagers (state_of (handle_command c g)) = villagers g
    \<and> villagers_file (state_of (handle_command c g)) = villagers_file g
    \<and> resources (state_of (handle_command c g)) = resources g"
proof -
  have t: "str_int TOTAL_VILLAGERS = ''100''" unfolding TOTAL_VILLAGERS_def by code_simp
  show ?thesis using assms
    by (simp add: handle_command_def Let_def too_many_message_def t)
qed

text \<open>
  C6 at the scenario of the specification: 60 villagers on gold, then
  \<^verbatim>\<open>get stone with 50 villagers\<close>.
\<close>

theorem get_over_allocation_rejected_witness:
  "handle_command ''get stone with 50 villagers''
      (initial_game\<lparr>villagers := [(''gold'', 60), (''stone'', 0), (''wood'', 0), (''food'', 0)]\<rparr>) =
     Returned (log_message
       (Line ''Too many villagers. You have 60 villagers assigned. You can assign a maximum of 100.'')
       (initial_game\<lparr>villagers := [(''gold'', 60), (''stone'', 0), (''wood'', 0), (''food'', 0)]\<rparr>))"
proof -
  let ?g = "initial_game\<lparr>villagers := [(''gold'', 60), (''stone'', 0), (''wood'', 0), (''food'', 0)]\<rparr>"
  have p: "py_split ''get stone with 50 villagers'' = [''get'', ''stone'', ''with'', ''50'', ''villagers'']"
    by code_simp
  have l0: "lower ''get'' = ''get''" by code_simp
  have l1: "lower ''stone'' = ''stone''" by code_simp
  have i: "py_int ''50'' = Some 50" by code_simp
  have r: "lower ''stone'' \<in> set RESOURCE_TYPES" by (simp add: l1 RESOURCE_TYPES_def)
  have m: "map_of (villagers ?g) (lower ''stone'') = Some 0" by (simp add: l1)
  have t: "sum_list (map snd (villagers ?g)) - 0 + 50 > TOTAL_VILLAGERS"
    by (simp add: TOTAL_VILLAGERS_def)
  have s: "str_int 60 = ''60''" by code_simp
  from get_over_allocation_rejected[OF p l0 i r m t] show ?thesis
    by (simp add: s)
qed

subsection \<open>C7: an unknown resource name\<close>

text \<open>
  C7, as stated, fails: the count is parsed before the resource name is looked at, so
  \<^verbatim>\<open>get foo with abc villagers\<close> reports the invalid-number error, not the
  invalid-resource error.
\<close>

theorem get_invalid_resource_bad_count:
  "handle_command ''get foo with abc villagers'' initial_game =
     Returned (log_message (Line ''Invalid number of villagers.  Must be an integer.'') initial_game)
   \<and> handle_command ''get foo with abc villagers'' initial_game \<noteq>
     Returned (log_message (Line (invalid_resource_message ''foo'')) initial_game)"
  by code_simp

text \<open>
  C7, amended. A \<^verbatim>\<open>get\<close> command of at least four tokens whose lower-cased resource
  name is not a resource type takes no action and logs one line: the invalid-resource
  error when the count token is an integer, the invalid-number error when it is not.
\<close>

theorem get_invalid_resource_rejected:
  assumes "py_split c = p0 # p1 # p2 # p3 # rest" and "lower p0 = ''get''"
    and "lower p1 \<notin> set RESOURCE_TYPES"
  shows "handle_command c g =
     Returned (log_message (Line (case py_int p3 of
         Some n \<Rightarrow> ''Invalid resource type: '' @ lower p1 @ ''.  Must be one of gold, stone, wood, food.''
       | None \<Rightarrow> ''Invalid number of villagers.  Must be an integer.'')) g)"
proof -
  have j: "join '', '' RESOURCE_TYPES = ''gold, stone, wood, food''" by code_simp
  show ?thesis using assms
    by (simp add: handle_command_def Let_def invalid_resource_message_def invalid_number_message_def j
        split: option.split)
qed

text \<open>
  C7, the amended statement at \<^verbatim>\<open>get foo with 10 villagers\<close>.
\<close>

theorem get_invalid_resource_rejected_witness:
  "handle_command ''get foo with 10 villagers'' initial_game =
     Returned (log_message
       (Line ''Invalid resource type: foo.  Must be one of gold, stone, wood, food.'') initial_game)"
proof -
  have p: "py_split ''get foo with 10 villagers'' = [''get'', ''foo'', ''with'', ''10'', ''villagers'']"
    by code_simp
  have l0: "lower ''get'' = ''get''" by code_simp
  have l1: "lower ''foo'' = ''foo''" by code_simp
  have i: "py_int ''10'' = Some 10" by code_simp
  have r: "lower ''foo'' \<notin> set RESOURCE_TYPES" by (simp add: l1 RESOURCE_TYPES_def)
  from get_invalid_resource_rejected[OF p l0 r] show ?thesis
    by (simp add: i l1)
qed

subsection \<open>C8: loading a missing or corrupt record\<close>

text \<open>
  What the \<^verbatim>\<open>except\<close> clause covers: when the file is absent or its text is not JSON,
  each load returns the zero-valued record, logs one line and raises nothing.
\<close>

lemma load_absent_or_malformed:
  "(resources_file g = Absent e \<or> resources_file g = Malformed e \<longrightarrow>
      load_resources g =
        (Inr [(''gold'', Finite 0), (''stone'', Finite 0), (''wood'', Finite 0), (''food'', Finite 0)],
         log_message (Line (''Error loading resources: '' @ e @ ''.  Returning default resources.'')) g))
   \<and> (villagers_file g = Absent e \<or> villagers_file g = Malformed e \<longrightarrow>
      load_villagers g =
        (Inr [(''gold'', 0), (''stone'', 0), (''wood'', 0), (''food'', 0)],
         log_message (Line (''Error loading villagers: '' @ e @ ''.  Returning default villagers.'')) g))"
  by (auto simp add: load_resources_def load_villagers_def default_resources_def default_villagers_def)

text \<open>
  C8. The claim is that a load returns the zero-valued record, with a warning and without
  raising, whenever the file is absent or its contents fail to parse. A file whose bytes
  are not text in the encoding fails to parse with \<^verbatim>\<open>UnicodeDecodeError\<close>, which is a
  \<^verbatim>\<open>ValueError\<close> but not a \<^verbatim>\<open>json.JSONDecodeError\<close>: on it each load raises, in any
  state, with nothing logged and no record returned.
\<close>

theorem load_undecodable_file_raises:
  "fails_to_parse (Undecodable :: ledger json_file)
   \<and> load_resources (g\<lparr>resources_file := Undecodable\<rparr>) =
        (Inl UnicodeDecodeError, g\<lparr>resources_file := Undecodable\<rparr>)
   \<and> fails_to_parse (Undecodable :: allocation json_file)
   \<and> load_villagers (g\<lparr>villagers_file := Undecodable\<rparr>) =
        (Inl UnicodeDecodeError, g\<lparr>villagers_file := Undecodable\<rparr>)"
  by (simp add: load_resources_def load_villagers_def)

subsection \<open>C9: \<^verbatim>\<open>status\<close>, \<^verbatim>\<open>help\<close> and unknown commands\<close>

text \<open>
  C9. \<^verbatim>\<open>status\<close> and \<^verbatim>\<open>help\<close> return with both records and both files as
  they were; a command whose lower-cased first token is none of \<^verbatim>\<open>get\<close>,
  \<^verbatim>\<open>status\<close>, \<^verbatim>\<open>help\<close>, \<^verbatim>\<open>exit\<close> changes nothing but the log, where it
  adds the unknown-command line naming that token (in lower case) and \<^verbatim>\<open>help\<close>.
\<close>

theorem status_help_unknown_frame:
  assumes "py_split c = p0 # rest"
  shows "(lower p0 = ''status'' \<or> lower p0 = ''help'' \<longrightarrow>
            (\<exists>g'. handle_command c g = Returned g' \<and> resources g' = resources g
               \<and> villagers g' = villagers g \<and> resources_file g' = resources_file g
               \<and> villagers_file g' = villagers_file g))
       \<and> (lower p0 \<notin> {''get'', ''status'', ''help'', ''exit''} \<longrightarrow>
            handle_command c g =
              Returned (log_message (Line (''Unknown command: '' @ lower p0
                 @ ''. Type 'help' for available commands.'')) g))"
  using assms by (auto simp add: handle_command_def Let_def unknown_command_message_def)

text \<open>
  C9 at \<^verbatim>\<open>status\<close> and at \<^verbatim>\<open>FOO bar\<close> in the initial state.
\<close>

theorem status_help_unknown_frame_witness:
  "(\<exists>g'. handle_command ''status'' initial_game = Returned g' \<and> resources g' = resources initial_game
       \<and> villagers g' = villagers initial_game \<and> resources_file g' = resources_file initial_game
       \<and> villagers_file g' = villagers_file initial_game)
   \<and> handle_command ''FOO bar'' initial_game =
       Returned (log_message (Line ''Unknown command: foo. Type 'help' for available commands.'')
         initial_game)"
proof -
  have p1: "py_split ''status'' = [''status'']" by code_simp
  have l1: "lower ''status'' = ''status''" by code_simp
  have p2: "py_split ''FOO bar'' = [''FOO'', ''bar'']" by code_simp
  have l2: "lower ''FOO'' = ''foo''" by code_simp
  have a: "lower ''status'' = ''status'' \<or> lower ''status'' = ''help''" by (simp add: l1)
  have b: "lower ''FOO'' \<notin> {''get'', ''status'', ''help'', ''exit''}" by (simp add: l2)
  from status_help_unknown_frame[OF p1, THEN conjunct1, THEN mp, OF a]
       status_help_unknown_frame[OF p2, THEN conjunct2, THEN mp, OF b]
  show ?thesis by (simp add: l2)
qed

subsection \<open>C10: the tokens a \<^verbatim>\<open>get\<close> command reads\<close>

text \<open>
  C10. Two \<^verbatim>\<open>get\<close> commands of at least four tokens with the same second and the
  same fourth token have the same outcome in every state: the third token and whatever
  follows the fourth are never read.
\<close>

theorem get_reads_second_and_fourth_token:
  assumes "py_split c = p0 # resource # p2 # count # rest"
      and "py_split c' = q0 # resource # q2 # count # rest'"
      and "lower p0 = ''get''" and "lower q0 = ''get''"
  shows "handle_command c g = handle_command c' g"
  using assms by (simp add: handle_command_def Let_def)

text \<open>
  C10 at \<^verbatim>\<open>get gold anything 10 whatever\<close> and at the four-token
  \<^verbatim>\<open>get gold 7 10\<close>, against \<^verbatim>\<open>get gold with 10 villagers\<close>, which succeeds.
\<close>

theorem get_reads_second_and_fourth_token_witness:
  "handle_command ''get gold anything 10 whatever'' initial_game =
     handle_command ''get gold with 10 villagers'' initial_game
   \<and> handle_command ''get gold 7 10'' initial_game =
     handle_command ''get gold with 10 villagers'' initial_game
   \<and> villagers (state_of (handle_command ''get gold with 10 villagers'' initial_game)) =
       [(''gold'', 10), (''stone'', 0), (''wood'', 0), (''food'', 0)]"
proof -
  have p: "py_split ''get gold anything 10 whatever'' = [''get'', ''gold'', ''anything'', ''10'', ''whatever'']"
    by code_simp
  have p': "py_split ''get gold with 10 villagers'' = [''get'', ''gold'', ''with'', ''10'', ''villagers'']"
    by code_simp
  have p'': "py_split ''get gold 7 10'' = [''get'', ''gold'', ''7'', ''10'']"
    by code_simp
  have l: "lower ''get'' = ''get''" by code_simp
  have v: "villagers (state_of (handle_command ''get gold with 10 villagers'' initial_game)) =
       [(''gold'', 10), (''stone'', 0), (''wood'', 0), (''food'', 0)]"
    by code_simp
  from get_reads_second_and_fourth_token[OF p p' l l]
       get_reads_second_and_fourth_token[OF p'' p' l l] v
  show ?thesis by simp
qed

end
